theory Spec2Isabelle
  imports Main "HOL-Library.AList"
begin

section \<open>Data model of valdn.go\<close>

text \<open>
  The validator walks Go values through the \<^verbatim>\<open>reflect\<close> package. The model keeps exactly
  what the traversal looks at: the kind of a type, the fields of a struct type (name, tag
  under \<^verbatim>\<open>TagName\<close>, type), and whether a map or slice type is the canonical
  \<^verbatim>\<open>map[string]interface{}\<close> or \<^verbatim>\<open>[]interface{}\<close>.
\<close>

datatype kind = KStruct | KMap | KSlice | KOther

datatype rtype =
    TNil
  | TStruct "sfield list"
  | TMapSI
  | TMapOther
  | TSliceI
  | TSliceOther
  | TOther
and sfield = SField (sf_name: string) (sf_tag: string) (sf_type: rtype)

text \<open>
  \<open>TNil\<close> is the nil \<^verbatim>\<open>reflect.Type\<close> that \<^verbatim>\<open>reflect.TypeOf(nil)\<close> returns; calling
  \<^verbatim>\<open>Kind()\<close> on it panics, so \<open>Kind\<close> is only applied to the other types.
\<close>

fun Kind :: "rtype \<Rightarrow> kind" where
  "Kind (TStruct fs) = KStruct"
| "Kind TMapSI = KMap"
| "Kind TMapOther = KMap"
| "Kind TSliceI = KSlice"
| "Kind TSliceOther = KSlice"
| "Kind TOther = KOther"
| "Kind TNil = KOther"

text \<open>
  A value held in an \<^verbatim>\<open>interface{}\<close>. \<open>Scalar\<close> is any value whose kind is not struct,
  map or slice; \<open>OtherMap\<close> and \<open>OtherSlice\<close> are maps and slices of a non-canonical type,
  with their contents left abstract. A map is the list of its entries in the order in
  which \<^verbatim>\<open>range\<close> happens to deliver them. A struct field carries its name, its tag, its
  declared type, whether it is exported (\<^verbatim>\<open>CanInterface\<close>) and its value.
\<close>

datatype 'a val =
    Nil
  | Scalar 'a
  | Struct "'a vfield list"
  | MapV "(string \<times> 'a val) list"
  | SliceV "'a val list"
  | OtherMap 'a
  | OtherSlice 'a
and 'a vfield =
    Field (f_name: string) (f_tag: string) (f_type: rtype) (f_exported: bool) (f_val: "'a val")

fun typeOf :: "'a val \<Rightarrow> rtype" where
  "typeOf Nil = TNil"
| "typeOf (Scalar x) = TOther"
| "typeOf (Struct fs) = TStruct (map (\<lambda>f. SField (f_name f) (f_tag f) (f_type f)) fs)"
| "typeOf (MapV m) = TMapSI"
| "typeOf (SliceV s) = TSliceI"
| "typeOf (OtherMap x) = TMapOther"
| "typeOf (OtherSlice x) = TSliceOther"

type_synonym Rules = "(string \<times> string list) list"
type_synonym Errors = "string \<rightharpoonup> string"

record validation =
  rules :: Rules
  errors :: Errors
  fieldsExist :: "string set"

text \<open>Every \<^verbatim>\<open>panic\<close> of the file, and the reflect panics it can run into.\<close>

datatype panic =
    UnknownRule string
  | NotAStruct
  | UnsupportedType string
  | NilType
  | ReflectPanic

text \<open>
  The rule registry and the message table are external to valdn.go: a rule function
  takes the field name, the value and the rule's parameter and returns an error message
  or nothing.
\<close>

type_synonym 'a rule_func = "string \<Rightarrow> 'a val \<Rightarrow> string \<Rightarrow> string option"

record 'a registry =
  getRule :: "string \<Rightarrow> 'a rule_func option"
  GetErrMsg :: "string \<Rightarrow> string \<Rightarrow> string \<Rightarrow> string \<Rightarrow> string"

section \<open>Helpers that valdn.go calls\<close>

text \<open>
  Modelled from the spec: \<^verbatim>\<open>splitRuleNameAndRuleValue\<close> is not in valdn.go. A rule
  expression is \<^verbatim>\<open>name\<close> or \<^verbatim>\<open>name:parameter\<close>, split at a single fixed separator.
\<close>

definition splitRuleNameAndRuleValue :: "string \<Rightarrow> string \<times> string" where
  "splitRuleNameAndRuleValue r =
     (takeWhile (\<lambda>c. c \<noteq> CHR '':'') r, drop 1 (dropWhile (\<lambda>c. c \<noteq> CHR '':'') r))"

text \<open>
  Modelled from the spec: \<^verbatim>\<open>getRuleInfo\<close> is not in valdn.go. It splits the expression
  and resolves the name in the registry; the rule exists when the registry has it.
\<close>

definition getRuleInfo :: "'a registry \<Rightarrow> string \<Rightarrow> string \<times> string \<times> 'a rule_func option" where
  "getRuleInfo h r =
     (let (rName, rVal) = splitRuleNameAndRuleValue r in (rName, rVal, getRule h rName))"

text \<open>
  Modelled from the spec: \<^verbatim>\<open>getParentName\<close> is not in valdn.go. The parent of a path is
  the path without its final segment; a path of one segment has the empty parent.
\<close>

definition getParentName :: "string \<Rightarrow> string" where
  "getParentName name = rev (drop 1 (dropWhile (\<lambda>c. c \<noteq> CHR ''.'') (rev name)))"

text \<open>
  Modelled from the spec: \<^verbatim>\<open>makeParentNameJoinable\<close> is not in valdn.go. A child path is
  the parent path, a separator and the field name or index; the root path is empty and
  its children carry no separator.
\<close>

definition makeParentNameJoinable :: "string \<Rightarrow> string" where
  "makeParentNameJoinable name = (if name = [] then [] else name @ ''.'')"

text \<open>
  Modelled from the spec: \<^verbatim>\<open>toString\<close> is not in valdn.go. It is the decimal form of a
  slice index.
\<close>

function toString :: "nat \<Rightarrow> string" where
  "toString n =
     (if n < 10 then [''0123456789'' ! n]
      else toString (n div 10) @ [''0123456789'' ! (n mod 10)])"
  by pat_completeness auto
termination
  by (relation "measure id") auto

declare toString.simps [simp del]

text \<open>
  Modelled from the spec: \<^verbatim>\<open>IsStruct\<close>, \<^verbatim>\<open>IsMap\<close> and \<^verbatim>\<open>IsSlice\<close> are not in valdn.go.
  They test the kind of the value; a nil interface is none of them.
\<close>

fun IsStruct :: "'a val \<Rightarrow> bool" where
  "IsStruct (Struct fs) = True"
| "IsStruct _ = False"

fun IsMap :: "'a val \<Rightarrow> bool" where
  "IsMap (MapV m) = True"
| "IsMap (OtherMap x) = True"
| "IsMap _ = False"

fun IsSlice :: "'a val \<Rightarrow> bool" where
  "IsSlice (SliceV s) = True"
| "IsSlice (OtherSlice x) = True"
| "IsSlice _ = False"

text \<open>
  Modelled from the spec: \<^verbatim>\<open>copyRules\<close> is not in valdn.go. The session owns a copy of
  the caller's table; in a model that passes tables by value the copy is the table.
\<close>

definition copyRules :: "Rules \<Rightarrow> Rules" where
  "copyRules rs = map (\<lambda>(k, v). (k, v)) rs"

text \<open>
  \<^verbatim>\<open>strings.Split(s, TagSeparator)\<close> with the default one-character separator
  \<^verbatim>\<open>"|"\<close>: the pieces between the separators, empty pieces included.
\<close>

definition TagSeparator :: char where
  "TagSeparator = CHR ''|''"

fun splitOn :: "char \<Rightarrow> string \<Rightarrow> string list" where
  "splitOn sep [] = [[]]"
| "splitOn sep (c # cs) =
     (if c = sep then [] # splitOn sep cs
      else (case splitOn sep cs of [] \<Rightarrow> [[c]] | p # ps \<Rightarrow> (c # p) # ps))"

text \<open>Reading a Go map of slices at a missing key gives the nil slice.\<close>

definition rulesAt :: "Rules \<Rightarrow> string \<Rightarrow> string list" where
  "rulesAt rs name = (case map_of rs name of Some r \<Rightarrow> r | None \<Rightarrow> [])"

text \<open>
  A \<^verbatim>\<open>for ... range\<close> loop whose body may panic: the state is threaded through the
  elements in order and the first panic ends the loop.
\<close>

fun foldE :: "('x \<Rightarrow> 's \<Rightarrow> 'e + 's) \<Rightarrow> 'x list \<Rightarrow> 's \<Rightarrow> 'e + 's" where
  "foldE f [] s = Inr s"
| "foldE f (x # xs) s = (case f x s of Inl e \<Rightarrow> Inl e | Inr s' \<Rightarrow> foldE f xs s')"

lemma foldE_cong [fundef_cong]:
  "xs = ys \<Longrightarrow> s = t \<Longrightarrow> (\<And>x u. x \<in> set ys \<Longrightarrow> f x u = g x u) \<Longrightarrow> foldE f xs s = foldE g ys t"
proof (induction ys arbitrary: xs s t)
  case Nil
  then show ?case by simp
next
  case (Cons y ys)
  then show ?case by (auto split: sum.splits)
qed

section \<open>The validation session\<close>

definition createNewValidation :: "Rules \<Rightarrow> validation" where
  "createNewValidation rs = \<lparr>rules = copyRules rs, errors = Map.empty, fieldsExist = {}\<rparr>"

fun Validate :: "'a registry \<Rightarrow> string \<Rightarrow> 'a val \<Rightarrow> string list \<Rightarrow> panic + string option" where
  "Validate h name val [] = Inr None"
| "Validate h name val (r # rs) =
     (if r = [] then Validate h name val rs
      else (case getRuleInfo h r of
              (rName, rVal, None) \<Rightarrow> Inl (UnknownRule rName)
            | (rName, rVal, Some rFunc) \<Rightarrow>
                (case rFunc name val rVal of
                   Some err \<Rightarrow> Inr (Some err)
                 | None \<Rightarrow> Validate h name val rs)))"

definition registerField :: "validation \<Rightarrow> string \<Rightarrow> validation" where
  "registerField v name = v\<lparr>fieldsExist := insert name (fieldsExist v)\<rparr>"

definition addError :: "validation \<Rightarrow> string \<Rightarrow> string \<Rightarrow> validation" where
  "addError v name err = v\<lparr>errors := (errors v)(name \<mapsto> err)\<rparr>"

definition getFieldRules :: "validation \<Rightarrow> string \<Rightarrow> string list" where
  "getFieldRules v name =
     (case map_of (rules v) name of
        Some val \<Rightarrow> val
      | None \<Rightarrow> rulesAt (rules v) (getParentName name @ ''.*''))"

definition getParentRules :: "validation \<Rightarrow> string \<Rightarrow> string list" where
  "getParentRules v name =
     (case map_of (rules v) name of
        Some val \<Rightarrow> val
      | None \<Rightarrow> if name \<noteq> [] then rulesAt (rules v) (getParentName name @ ''.*'') else [])"

text \<open>
  \<^verbatim>\<open>addTagRules(val, t, parName)\<close>. The first two loops run over the entries of a
  canonical map or slice held in \<open>val\<close>; the third runs over the fields of the struct
  type \<open>t\<close>. In its recursive call the third loop passes the \<^verbatim>\<open>reflect.StructField\<close>
  itself as the value, which is a struct and neither a map nor a slice.
\<close>

definition structFieldV :: "'a val" where
  "structFieldV = Struct []"

function addTagRules :: "validation \<Rightarrow> 'a val \<Rightarrow> rtype \<Rightarrow> string \<Rightarrow> validation" where
  "addTagRules v val t parName =
     (let parName = makeParentNameJoinable parName;
          v = (case val of
                 MapV m \<Rightarrow>
                   fold (\<lambda>(k, i) v.
                           if IsStruct i \<or> IsMap i \<or> IsSlice i
                           then addTagRules v i (typeOf i) (parName @ k) else v) m v
               | _ \<Rightarrow> v);
          v = (case val of
                 SliceV s \<Rightarrow>
                   fold (\<lambda>(k, i) v.
                           if IsStruct i \<or> IsMap i \<or> IsSlice i
                           then addTagRules v i (typeOf i) (parName @ toString k) else v)
                        (enumerate 0 s) v
               | _ \<Rightarrow> v)
      in (case t of
            TStruct fs \<Rightarrow>
              fold (\<lambda>f v.
                      let typ = sf_type f;
                          name = parName @ sf_name f;
                          tRules = sf_tag f;
                          v = (if map_of (rules v) name = None \<and> tRules \<noteq> []
                               then v\<lparr>rules := AList.update name (splitOn TagSeparator tRules) (rules v)\<rparr>
                               else v)
                      in (case Kind typ of
                            KOther \<Rightarrow> v
                          | _ \<Rightarrow> addTagRules v (structFieldV :: 'a val) typ name)) fs v
          | _ \<Rightarrow> v))"
  by pat_completeness auto

lemma size_in_list: "i \<in> set s \<Longrightarrow> size i < Suc (size_list size s)"
  by (induction s) auto

lemma size_in_enumerate: "(k, i) \<in> set (enumerate n s) \<Longrightarrow> size i < Suc (size_list size s)"
  by (rule size_in_list) (auto simp: in_set_enumerate_eq)

lemma size_in_entries:
  "(k, i) \<in> set m \<Longrightarrow> size i < Suc (size_list (size_prod (\<lambda>x. 0) size) m)"
  by (induction m) auto

lemma size_sf_type: "f \<in> set fs \<Longrightarrow> size (sf_type f) < Suc (size_list size fs)"
  by (induction fs) (auto, case_tac f, auto)

termination addTagRules
  apply (relation "measures [\<lambda>(v, val, t, p). (case val of MapV m \<Rightarrow> size val
                                                 | SliceV s \<Rightarrow> size val | _ \<Rightarrow> 0),
                             \<lambda>(v, val, t, p). size t]")
      apply simp
     apply (auto simp: structFieldV_def
                 dest: size_in_entries size_in_enumerate size_sf_type split: val.splits)
  done

declare addTagRules.simps [simp del]

text \<open>
  The traversal. \<^verbatim>\<open>validateMap\<close> and \<^verbatim>\<open>validateSlice\<close> panic unless the value has
  exactly the canonical type, which in the model is the case for \<open>MapV\<close> and \<open>SliceV\<close>
  only. \<^verbatim>\<open>validateStruct\<close> evaluates the rules first and then asks reflect for the
  fields, which panics on a value that is not a struct. The fields of a struct are
  what \<^verbatim>\<open>getStructFieldInfo\<close> delivers for each index: the joined name, the field's
  declared type and its value.
\<close>

function
  validateByType :: "'a registry \<Rightarrow> validation \<Rightarrow> string \<Rightarrow> rtype \<Rightarrow> 'a val \<Rightarrow> panic + validation"
  and validateStruct :: "'a registry \<Rightarrow> validation \<Rightarrow> 'a val \<Rightarrow> string \<Rightarrow> panic + validation"
  and validateMap :: "'a registry \<Rightarrow> validation \<Rightarrow> 'a val \<Rightarrow> string \<Rightarrow> panic + validation"
  and validateSlice :: "'a registry \<Rightarrow> validation \<Rightarrow> 'a val \<Rightarrow> string \<Rightarrow> panic + validation"
  and validateStructFields ::
    "'a registry \<Rightarrow> validation \<Rightarrow> 'a vfield list \<Rightarrow> string \<Rightarrow> panic + validation"
  and validateMapFields ::
    "'a registry \<Rightarrow> validation \<Rightarrow> (string \<times> 'a val) list \<Rightarrow> string \<Rightarrow> panic + validation"
  and validateSliceFields ::
    "'a registry \<Rightarrow> validation \<Rightarrow> 'a val list \<Rightarrow> string \<Rightarrow> panic + validation"
where
  "validateByType h v name t val =
     (let v = registerField v name;
          rules = getFieldRules v name
      in if t = TNil then Inl NilType
         else (case Kind t of
                 KStruct \<Rightarrow> validateStruct h v val name
               | KMap \<Rightarrow> validateMap h v val name
               | KSlice \<Rightarrow> validateSlice h v val name
               | KOther \<Rightarrow>
                   (case Validate h name val rules of
                      Inl p \<Rightarrow> Inl p
                    | Inr (Some err) \<Rightarrow> Inr (addError v name err)
                    | Inr None \<Rightarrow> Inr v)))"
| "validateStruct h v val name =
     (let r = getParentRules v name
      in (case Validate h name val r of
            Inl p \<Rightarrow> Inl p
          | Inr (Some err) \<Rightarrow> Inr (addError v name err)
          | Inr None \<Rightarrow>
              (case val of
                 Struct fs \<Rightarrow> validateStructFields h v fs name
               | _ \<Rightarrow> Inl ReflectPanic)))"
| "validateMap h v val name =
     (case val of
        MapV m \<Rightarrow>
          (let r = getParentRules v name
           in (case Validate h name val r of
                 Inl p \<Rightarrow> Inl p
               | Inr (Some err) \<Rightarrow> Inr (addError v name err)
               | Inr None \<Rightarrow> validateMapFields h v m name))
      | _ \<Rightarrow> Inl (UnsupportedType name))"
| "validateSlice h v val name =
     (case val of
        SliceV s \<Rightarrow>
          (let r = getParentRules v name
           in (case Validate h name val r of
                 Inl p \<Rightarrow> Inl p
               | Inr (Some err) \<Rightarrow> Inr (addError v name err)
               | Inr None \<Rightarrow> validateSliceFields h v s name))
      | _ \<Rightarrow> Inl (UnsupportedType name))"
| "validateStructFields h v fs parName =
     (let parName = makeParentNameJoinable parName
      in foldE (\<lambda>f v. if \<not> f_exported f then Inr v
                       else validateByType h v (parName @ f_name f) (f_type f) (f_val f)) fs v)"
| "validateMapFields h v val parName =
     (let parName = makeParentNameJoinable parName
      in foldE (\<lambda>(name, value) v.
                  validateByType h v (parName @ name) (typeOf value) value) val v)"
| "validateSliceFields h v val parName =
     (let parName = makeParentNameJoinable parName
      in foldE (\<lambda>(idx, value) v.
                  validateByType h v (parName @ toString idx) (typeOf value) value)
               (enumerate 0 val) v)"
  by pat_completeness auto

lemma size_f_val: "f \<in> set fs \<Longrightarrow> size (f_val f) < Suc (size_list size fs)"
  by (induction fs) (auto, case_tac f, auto)

termination validateByType
  apply (relation "measures [\<lambda>x. case x of
      Inl (Inl (h, v, name, t, val)) \<Rightarrow> size val
    | Inl (Inr (Inl (h, v, val, name))) \<Rightarrow> size val
    | Inl (Inr (Inr (h, v, val, name))) \<Rightarrow> size val
    | Inr (Inl (Inl (h, v, val, name))) \<Rightarrow> size val
    | Inr (Inl (Inr (h, v, fs, name))) \<Rightarrow> size (Struct fs)
    | Inr (Inr (Inl (h, v, m, name))) \<Rightarrow> size (MapV m)
    | Inr (Inr (Inr (h, v, s, name))) \<Rightarrow> size (SliceV s),
    \<lambda>x. case x of
      Inl (Inl (h, v, name, t, val)) \<Rightarrow> 2
    | Inl (Inr (Inl (h, v, val, name))) \<Rightarrow> 1
    | Inl (Inr (Inr (h, v, val, name))) \<Rightarrow> 1
    | Inr (Inl (Inl (h, v, val, name))) \<Rightarrow> 1
    | _ \<Rightarrow> (0::nat)]")
      apply simp
     apply (auto dest: size_in_entries size_in_enumerate size_f_val split: val.splits)
  done

declare validateByType.simps [simp del] validateStruct.simps [simp del]
  validateMap.simps [simp del] validateSlice.simps [simp del]
  validateStructFields.simps [simp del] validateMapFields.simps [simp del]
  validateSliceFields.simps [simp del]

text \<open>
  The pass over the rule table after the traversal. The table does not change during
  the pass; the entries are taken in the order of the list.
\<close>

definition validateNonExistRequiredFields :: "'a registry \<Rightarrow> validation \<Rightarrow> validation" where
  "validateNonExistRequiredFields h v =
     fold (\<lambda>(name, rs) v.
             if name = ''*'' then v
             else fold (\<lambda>r v.
                          let (rName, rVal) = splitRuleNameAndRuleValue r
                          in if rName = ''required''
                             then (if name \<notin> fieldsExist v
                                   then addError v name (GetErrMsg h ''required'' rVal name [])
                                   else v)
                             else v) rs v)
          (rules v) v"

section \<open>Entry points\<close>

definition ValidateStruct :: "'a registry \<Rightarrow> 'a val \<Rightarrow> Rules \<Rightarrow> panic + Errors" where
  "ValidateStruct h val rs =
     (if \<not> IsStruct val then Inl NotAStruct
      else (let t = typeOf val;
                v = createNewValidation rs;
                v = addTagRules v val t []
            in (case validateStruct h v val [] of
                  Inl p \<Rightarrow> Inl p
                | Inr v \<Rightarrow> Inr (errors (validateNonExistRequiredFields h v)))))"

definition ValidateMap :: "'a registry \<Rightarrow> (string \<times> 'a val) list \<Rightarrow> Rules \<Rightarrow> panic + Errors" where
  "ValidateMap h val rs =
     (let t = typeOf (MapV val);
          v = createNewValidation rs;
          v = addTagRules v (MapV val) t []
      in (case validateMap h v (MapV val) [] of
            Inl p \<Rightarrow> Inl p
          | Inr v \<Rightarrow> Inr (errors (validateNonExistRequiredFields h v))))"

definition ValidateSlice :: "'a registry \<Rightarrow> 'a val list \<Rightarrow> Rules \<Rightarrow> panic + Errors" where
  "ValidateSlice h val rs =
     (let t = typeOf (SliceV val);
          v = createNewValidation rs;
          v = addTagRules v (SliceV val) t []
      in (case validateSlice h v (SliceV val) [] of
            Inl p \<Rightarrow> Inl p
          | Inr v \<Rightarrow> Inr (errors (validateNonExistRequiredFields h v))))"

section \<open>A registry to run the validator on\<close>

text \<open>
  The rule functions are not part of valdn.go. To evaluate the validator on concrete
  inputs the following registry has two rules: \<^verbatim>\<open>required\<close> fails on nil, on the empty
  string, and on an empty map, slice or struct; \<^verbatim>\<open>min\<close> fails on a string shorter than
  two characters and on a canonical map or slice with fewer than two entries. A message names the rule and the field.
\<close>

definition exMsg :: "string \<Rightarrow> string \<Rightarrow> string \<Rightarrow> string \<Rightarrow> string" where
  "exMsg rule rVal name kind = rule @ '' '' @ name"

fun exRequired :: "string rule_func" where
  "exRequired name Nil rVal = Some (exMsg ''required'' rVal name [])"
| "exRequired name (Scalar x) rVal = (if x = [] then Some (exMsg ''required'' rVal name []) else None)"
| "exRequired name (Struct fs) rVal = (if fs = [] then Some (exMsg ''required'' rVal name []) else None)"
| "exRequired name (MapV m) rVal = (if m = [] then Some (exMsg ''required'' rVal name []) else None)"
| "exRequired name (SliceV s) rVal = (if s = [] then Some (exMsg ''required'' rVal name []) else None)"
| "exRequired name (OtherMap x) rVal = None"
| "exRequired name (OtherSlice x) rVal = None"

fun exMin :: "string rule_func" where
  "exMin name (Scalar x) rVal = (if length x < 2 then Some (exMsg ''min'' rVal name []) else None)"
| "exMin name (MapV m) rVal = (if length m < 2 then Some (exMsg ''min'' rVal name []) else None)"
| "exMin name (SliceV s) rVal = (if length s < 2 then Some (exMsg ''min'' rVal name []) else None)"
| "exMin name val rVal = None"

definition exRegistry :: "string registry" where
  "exRegistry =
     \<lparr>getRule = (\<lambda>n. if n = ''required'' then Some exRequired
                       else if n = ''min'' then Some exMin else None),
      GetErrMsg = exMsg\<rparr>"

section \<open>Predicates used in the statements\<close>

text \<open>
  An expression passes at a field when it is the empty string, which \<^verbatim>\<open>Validate\<close>
  skips, or when its rule is registered and the rule function returns no error.
\<close>

definition rulePasses :: "'a registry \<Rightarrow> string \<Rightarrow> 'a val \<Rightarrow> string \<Rightarrow> bool" where
  "rulePasses h name val r =
     (r = [] \<or> (case getRuleInfo h r of
                  (rName, rVal, Some rFunc) \<Rightarrow> rFunc name val rVal = None
                | (rName, rVal, None) \<Rightarrow> False))"


text \<open>
  The completeness pass looks for expressions whose name is \<^verbatim>\<open>required\<close>. When a spec
  has several, the pass writes the message once for each, so the parameter of the
  last one is the one that stays. \<open>checkRule\<close> and \<open>checkEntry\<close> name the bodies of
  the inner and the outer loop of \<^verbatim>\<open>validateNonExistRequiredFields\<close>.
\<close>

definition isRequired :: "string \<Rightarrow> bool" where
  "isRequired r \<longleftrightarrow> fst (splitRuleNameAndRuleValue r) = ''required''"

definition hasRequired :: "string list \<Rightarrow> bool" where
  "hasRequired spec \<longleftrightarrow> list_ex isRequired spec"

definition requiredParam :: "string list \<Rightarrow> string" where
  "requiredParam spec = snd (splitRuleNameAndRuleValue (last (filter isRequired spec)))"

definition checkRule :: "'a registry \<Rightarrow> string \<Rightarrow> string \<Rightarrow> validation \<Rightarrow> validation" where
  "checkRule h name r v =
     (let (rName, rVal) = splitRuleNameAndRuleValue r
      in if rName = ''required''
         then (if name \<notin> fieldsExist v
               then addError v name (GetErrMsg h ''required'' rVal name [])
               else v)
         else v)"

definition checkEntry :: "'a registry \<Rightarrow> string \<Rightarrow> string list \<Rightarrow> validation \<Rightarrow> validation" where
  "checkEntry h name rs v = (if name = ''*'' then v else fold (checkRule h name) rs v)"

text \<open>
  How the annotation merger may change the session: it touches the rule table only, and
  every entry that the table has stays as it is.
\<close>

definition tagRel :: "validation \<Rightarrow> validation \<Rightarrow> bool" where
  "tagRel v v' \<longleftrightarrow>
     errors v' = errors v \<and> fieldsExist v' = fieldsExist v \<and>
     (\<forall>k spec. map_of (rules v) k = Some spec \<longrightarrow> map_of (rules v') k = Some spec)"

section \<open>Rule tables as objects\<close>

text \<open>
  A Go map is a reference: the caller's rule table and the table of the session are
  objects, and \<^verbatim>\<open>v.rules[name] = ...\<close> writes into the object that \<^verbatim>\<open>v.rules\<close> refers
  to. The objects allocated so far are a list, an address is an index into it, and the
  caller passes the address of its table.

  Modelled from the spec: \<^verbatim>\<open>copyRules\<close> is not in valdn.go. The table is copied when the
  session is created, so \<^verbatim>\<open>createNewValidation\<close> allocates a new object with the entries
  of the caller's table and the session refers to the new object. The record \<open>v\<close> holds
  the contents of that object; the writes of \<^verbatim>\<open>addTagRules\<close> are stored back into it.
\<close>

type_synonym tables = "Rules list"

definition createNewValidationAt :: "tables \<Rightarrow> nat \<Rightarrow> tables \<times> nat \<times> validation" where
  "createNewValidationAt ts a =
     (ts @ [copyRules (ts ! a)], length ts, createNewValidation (ts ! a))"

definition ValidateStructAt ::
  "'a registry \<Rightarrow> 'a val \<Rightarrow> nat \<Rightarrow> tables \<Rightarrow> (panic + Errors) \<times> tables" where
  "ValidateStructAt h val a ts =
     (if \<not> IsStruct val then (Inl NotAStruct, ts)
      else (let t = typeOf val;
                (ts, b, v) = createNewValidationAt ts a;
                v = addTagRules v val t [];
                ts = ts[b := rules v]
            in (case validateStruct h v val [] of
                  Inl p \<Rightarrow> (Inl p, ts)
                | Inr v \<Rightarrow> (Inr (errors (validateNonExistRequiredFields h v)), ts))))"

definition ValidateMapAt ::
  "'a registry \<Rightarrow> (string \<times> 'a val) list \<Rightarrow> nat \<Rightarrow> tables \<Rightarrow> (panic + Errors) \<times> tables" where
  "ValidateMapAt h val a ts =
     (let t = typeOf (MapV val);
          (ts, b, v) = createNewValidationAt ts a;
          v = addTagRules v (MapV val) t [];
          ts = ts[b := rules v]
      in (case validateMap h v (MapV val) [] of
            Inl p \<Rightarrow> (Inl p, ts)
          | Inr v \<Rightarrow> (Inr (errors (validateNonExistRequiredFields h v)), ts)))"

definition ValidateSliceAt ::
  "'a registry \<Rightarrow> 'a val list \<Rightarrow> nat \<Rightarrow> tables \<Rightarrow> (panic + Errors) \<times> tables" where
  "ValidateSliceAt h val a ts =
     (let t = typeOf (SliceV val);
          (ts, b, v) = createNewValidationAt ts a;
          v = addTagRules v (SliceV val) t [];
          ts = ts[b := rules v]
      in (case validateSlice h v (SliceV val) [] of
            Inl p \<Rightarrow> (Inl p, ts)
          | Inr v \<Rightarrow> (Inr (errors (validateNonExistRequiredFields h v)), ts)))"

section \<open>The rule expression evaluator\<close>

lemma Validate_passes_append:
  "list_all (rulePasses h name val) ps \<Longrightarrow>
   Validate h name val (ps @ qs) = Validate h name val qs"
  by (induction ps) (auto simp: rulePasses_def split: prod.splits option.splits)

lemma Validate_nil_iff:
  "Validate h name val rs = Inr None \<longleftrightarrow> list_all (rulePasses h name val) rs"
  by (induction rs) (auto simp: rulePasses_def split: prod.splits option.splits)

lemma Validate_filter:
  "Validate h name val (filter (\<lambda>r. r \<noteq> []) rs) = Validate h name val rs"
  by (induction rs) (auto split: prod.splits option.splits)

text \<open>
  Claim C6. \<^verbatim>\<open>Validate\<close> skips the empty expressions: removing them from the list does
  not change the result. It takes the expressions in order and returns the error of the
  first one whose rule function fails: when every expression before \<open>r\<close> passes and the
  rule function of \<open>r\<close> returns \<open>err\<close>, the result is \<open>err\<close> whatever follows \<open>r\<close> in
  the list, so nothing after \<open>r\<close> is looked up or called. It returns nil exactly when
  every expression of the list passes.
\<close>

theorem Validate_first_failure:
  "Validate h name val (filter (\<lambda>r. r \<noteq> []) rs) = Validate h name val rs \<and>
   (list_all (rulePasses h name val) ps \<and> r \<noteq> [] \<and>
      getRuleInfo h r = (rName, rVal, Some rFunc) \<and> rFunc name val rVal = Some err
      \<longrightarrow> Validate h name val (ps @ r # qs) = Inr (Some err)) \<and>
   (Validate h name val rs = Inr None \<longleftrightarrow> list_all (rulePasses h name val) rs)"
  by (simp add: Validate_filter Validate_passes_append Validate_nil_iff)

theorem Validate_first_failure_witness:
  "Validate exRegistry ''Age'' (Scalar ''7'') ['''', ''required'', ''min:2'', ''nosuch'']
     = Inr (Some ''min Age'') \<and>
   Validate exRegistry ''Age'' (Scalar ''18'') ['''', ''required'', ''min:2''] = Inr None"
  using Validate_first_failure [of exRegistry "''Age''" "Scalar ''7''" "[]" "['''', ''required'']"
      "''min:2''" "''min''" "''2''" exMin "''min Age''" "[''nosuch'']"]
    Validate_first_failure [of exRegistry "''Age''" "Scalar ''18''"
      "['''', ''required'', ''min:2'']" "[]"]
  by (simp add: rulePasses_def getRuleInfo_def splitRuleNameAndRuleValue_def
      exRegistry_def exMsg_def)

section \<open>What a traversal can change\<close>









lemma Validate_empty_spec: "Validate h name val [] = Inr None"
  by simp



lemma validateStruct_cases:
  "Validate h name val (getParentRules v name) = Inl p \<Longrightarrow> validateStruct h v val name = Inl p"
  "Validate h name val (getParentRules v name) = Inr (Some err) \<Longrightarrow>
     validateStruct h v val name = Inr (addError v name err)"
  "Validate h name (Struct fs) (getParentRules v name) = Inr None \<Longrightarrow>
     validateStruct h v (Struct fs) name = validateStructFields h v fs name"
  "Validate h name val (getParentRules v name) = Inr None \<Longrightarrow> \<not> IsStruct val \<Longrightarrow>
     validateStruct h v val name = Inl ReflectPanic"
     apply (simp_all add: validateStruct.simps)
  apply (cases val; simp)
  done

lemma validateMap_cases:
  "Validate h name (MapV m) (getParentRules v name) = Inl p \<Longrightarrow>
     validateMap h v (MapV m) name = Inl p"
  "Validate h name (MapV m) (getParentRules v name) = Inr (Some err) \<Longrightarrow>
     validateMap h v (MapV m) name = Inr (addError v name err)"
  "Validate h name (MapV m) (getParentRules v name) = Inr None \<Longrightarrow>
     validateMap h v (MapV m) name = validateMapFields h v m name"
  "typeOf val \<noteq> TMapSI \<Longrightarrow> validateMap h v val name = Inl (UnsupportedType name)"
     apply (simp_all add: validateMap.simps)
  apply (cases val; simp)
  done

lemma validateSlice_cases:
  "Validate h name (SliceV m) (getParentRules v name) = Inl p \<Longrightarrow>
     validateSlice h v (SliceV m) name = Inl p"
  "Validate h name (SliceV m) (getParentRules v name) = Inr (Some err) \<Longrightarrow>
     validateSlice h v (SliceV m) name = Inr (addError v name err)"
  "Validate h name (SliceV m) (getParentRules v name) = Inr None \<Longrightarrow>
     validateSlice h v (SliceV m) name = validateSliceFields h v m name"
  "typeOf val \<noteq> TSliceI \<Longrightarrow> validateSlice h v val name = Inl (UnsupportedType name)"
     apply (simp_all add: validateSlice.simps)
  apply (cases val; simp)
  done





section \<open>The completeness pass\<close>

lemma pass_fold:
  "validateNonExistRequiredFields h v = fold (\<lambda>(name, rs). checkEntry h name rs) (rules v) v"
  unfolding validateNonExistRequiredFields_def checkEntry_def checkRule_def [abs_def]
  by (rule refl)

lemma checkRule_skip: "\<not> isRequired r \<or> name \<in> fieldsExist v \<Longrightarrow> checkRule h name r v = v"
  by (auto simp: checkRule_def isRequired_def split: prod.splits)

lemma checkRule_add:
  "isRequired r \<Longrightarrow> name \<notin> fieldsExist v \<Longrightarrow>
   checkRule h name r v =
     addError v name (GetErrMsg h ''required'' (snd (splitRuleNameAndRuleValue r)) name [])"
  by (auto simp: checkRule_def isRequired_def split: prod.splits)

lemma addError_twice: "addError (addError v name a) name b = addError v name b"
  by (simp add: addError_def)

lemma fieldsExist_addError: "fieldsExist (addError v name e) = fieldsExist v"
  by (simp add: addError_def)

lemma fold_checkRule:
  "name \<notin> fieldsExist v \<Longrightarrow>
   fold (checkRule h name) rs v =
     (if hasRequired rs
      then addError v name (GetErrMsg h ''required'' (requiredParam rs) name [])
      else v)"
proof (induction rs rule: rev_induct)
  case Nil
  then show ?case by (simp add: hasRequired_def)
next
  case (snoc r rs)
  show ?case
  proof (cases "isRequired r")
    case True
    with snoc show ?thesis
      by (simp add: hasRequired_def requiredParam_def checkRule_add fieldsExist_addError
          addError_twice)
  next
    case False
    with snoc show ?thesis
      by (simp add: hasRequired_def requiredParam_def checkRule_skip fieldsExist_addError)
  qed
qed

lemma fold_checkRule_visited:
  "name \<in> fieldsExist v \<Longrightarrow> fold (checkRule h name) rs v = v"
  by (induction rs) (simp_all add: checkRule_skip)

lemma fold_checkRule_none: "\<not> hasRequired rs \<Longrightarrow> fold (checkRule h name) rs v = v"
  by (induction rs) (simp_all add: hasRequired_def checkRule_skip)

lemma checkEntry_eq:
  "checkEntry h name rs v =
     (if name \<noteq> ''*'' \<and> name \<notin> fieldsExist v \<and> hasRequired rs
      then addError v name (GetErrMsg h ''required'' (requiredParam rs) name [])
      else v)"
  by (simp add: checkEntry_def fold_checkRule fold_checkRule_visited fold_checkRule_none)

lemma checkEntry_fields:
  "fieldsExist (checkEntry h name rs v) = fieldsExist v"
  "rules (checkEntry h name rs v) = rules v"
  by (simp_all add: checkEntry_eq addError_def)

lemma checkEntry_errors:
  "p \<noteq> name \<or> p \<in> fieldsExist v \<or> p = ''*'' \<Longrightarrow> errors (checkEntry h name rs v) p = errors v p"
  "errors v p \<noteq> None \<Longrightarrow> errors (checkEntry h name rs v) p \<noteq> None"
  by (auto simp: checkEntry_eq addError_def)

lemma fold_checkEntry_fields:
  "fieldsExist (fold (\<lambda>(name, rs). checkEntry h name rs) es v) = fieldsExist v \<and>
   rules (fold (\<lambda>(name, rs). checkEntry h name rs) es v) = rules v"
  by (induction es arbitrary: v) (simp_all add: checkEntry_fields split: prod.splits)

lemma fold_checkEntry_other:
  "p \<notin> fst ` set es \<Longrightarrow> errors (fold (\<lambda>(name, rs). checkEntry h name rs) es v) p = errors v p"
  by (induction es arbitrary: v) (auto simp: checkEntry_errors)


lemma fold_checkEntry_distinct:
  "distinct (map fst es) \<Longrightarrow> map_of es p = Some spec \<Longrightarrow>
   errors (fold (\<lambda>(name, rs). checkEntry h name rs) es v) p = errors (checkEntry h p spec v) p"
proof (induction es arbitrary: v)
  case Nil
  then show ?case by simp
next
  case (Cons e es)
  obtain n rs where e: "e = (n, rs)" by (cases e)
  show ?case
  proof (cases "n = p")
    case True
    with Cons.prems e have "p \<notin> fst ` set es" and "spec = rs" by auto
    with True e show ?thesis by (simp add: fold_checkEntry_other)
  next
    case False
    with Cons e have "errors (fold (\<lambda>(name, rs). checkEntry h name rs) es (checkEntry h n rs v)) p
        = errors (checkEntry h p spec (checkEntry h n rs v)) p" by simp
    also have "\<dots> = errors (checkEntry h p spec v) p"
      using False by (simp add: checkEntry_eq addError_def)
    finally show ?thesis using e by simp
  qed
qed

lemma pass_fields:
  "fieldsExist (validateNonExistRequiredFields h v) = fieldsExist v"
  "rules (validateNonExistRequiredFields h v) = rules v"
  by (simp_all add: pass_fold fold_checkEntry_fields)


lemma pass_entry:
  "distinct (map fst (rules v)) \<Longrightarrow> map_of (rules v) p = Some spec \<Longrightarrow>
   errors (validateNonExistRequiredFields h v) p =
     (if p \<noteq> ''*'' \<and> p \<notin> fieldsExist v \<and> hasRequired spec
      then Some (GetErrMsg h ''required'' (requiredParam spec) p [])
      else errors v p)"
  by (simp add: pass_fold fold_checkEntry_distinct checkEntry_eq addError_def)

lemma fold_checkEntry_dom:
  "errors v p \<noteq> None \<Longrightarrow> errors (fold (\<lambda>(name, rs). checkEntry h name rs) es v) p \<noteq> None"
proof (induction es arbitrary: v)
  case Nil
  then show ?case by simp
next
  case (Cons e es)
  obtain n rs where e: "e = (n, rs)" by (cases e)
  have "errors (checkEntry h n rs v) p \<noteq> None"
    using Cons.prems by (rule checkEntry_errors(2))
  then have "errors (fold (\<lambda>(name, rs). checkEntry h name rs) es (checkEntry h n rs v)) p \<noteq> None"
    by (rule Cons.IH)
  then show ?case using e by simp
qed

lemma pass_dom: "errors v p \<noteq> None \<Longrightarrow> errors (validateNonExistRequiredFields h v) p \<noteq> None"
  unfolding pass_fold by (rule fold_checkEntry_dom)

section \<open>Visited paths\<close>

lemmas eval_simps =
  validateByType.simps validateStruct.simps validateMap.simps validateSlice.simps
  validateStructFields.simps validateMapFields.simps validateSliceFields.simps
  addTagRules.simps toString.simps
  ValidateMap_def ValidateStruct_def ValidateSlice_def
  getParentRules_def getFieldRules_def rulesAt_def getParentName_def
  makeParentNameJoinable_def getRuleInfo_def splitRuleNameAndRuleValue_def
  registerField_def addError_def createNewValidation_def copyRules_def
  validateNonExistRequiredFields_def exRegistry_def exMsg_def Let_def











section \<open>Required but absent\<close>

text \<open>
  Claim C3 at a concrete input. The entry points start the traversal at the root
  without registering the root path, so the empty path is not in the visited set after
  the traversal. With the table \<^verbatim>\<open>{"": ["min:2", "required"]}\<close> and the map
  \<^verbatim>\<open>{"a": "x"}\<close> the root fails \<^verbatim>\<open>min\<close> and the traversal records that error at the
  empty path; the completeness pass then writes the required-but-absent message over
  it. With the table \<^verbatim>\<open>{"": ["required"]}\<close> the same map passes its rule, the
  traversal records nothing, and the pass reports the root, which is present, as
  required.
\<close>

theorem root_required_overwritten:
  "validateMap exRegistry (createNewValidation [([], [''min:2'', ''required''])])
       (MapV [(''a'', Scalar ''x'')]) []
     = Inr \<lparr>rules = [([], [''min:2'', ''required''])], errors = [[] \<mapsto> ''min ''],
            fieldsExist = {}\<rparr> \<and>
   errors (validateNonExistRequiredFields exRegistry
       \<lparr>rules = [([], [''min:2'', ''required''])], errors = [[] \<mapsto> ''min ''],
        fieldsExist = {}\<rparr>) [] = Some ''required '' \<and>
   ValidateMap exRegistry [(''a'', Scalar ''x'')] [([], [''min:2'', ''required''])]
     = Inr [[] \<mapsto> ''required ''] \<and>
   validateMap exRegistry (createNewValidation [([], [''required''])])
       (MapV [(''a'', Scalar ''x'')]) []
     = Inr \<lparr>rules = [([], [''required''])], errors = Map.empty, fieldsExist = {''a''}\<rparr> \<and>
   ValidateMap exRegistry [(''a'', Scalar ''x'')] [([], [''required''])]
     = Inr [[] \<mapsto> ''required '']"
  by (simp add: eval_simps)

section \<open>A composite that fails its own rules\<close>

text \<open>
  Claim C1 at a concrete input. The table
  \<^verbatim>\<open>{"user": ["min:2"], "user.name": ["required"]}\<close> and the map
  \<^verbatim>\<open>{"user": {"name": "bob"}}\<close>: the map at \<^verbatim>\<open>user\<close> has one entry and fails \<^verbatim>\<open>min\<close>, the
  traversal records that error and returns without visiting \<^verbatim>\<open>user.name\<close>, and the
  completeness pass then reports \<^verbatim>\<open>user.name\<close>, which is present and not empty, as
  required: the returned error map has an entry at a descendant path of the failed
  composite.
\<close>

theorem failed_parent_child_reported:
  "validateMap exRegistry
       (createNewValidation [(''user'', [''min:2'']), (''user.name'', [''required''])])
       (MapV [(''user'', MapV [(''name'', Scalar ''bob'')])]) []
     = Inr \<lparr>rules = [(''user'', [''min:2'']), (''user.name'', [''required''])],
            errors = [''user'' \<mapsto> ''min user''], fieldsExist = {''user''}\<rparr> \<and>
   ValidateMap exRegistry [(''user'', MapV [(''name'', Scalar ''bob'')])]
       [(''user'', [''min:2'']), (''user.name'', [''required''])]
     = Inr [''user'' \<mapsto> ''min user'', ''user.name'' \<mapsto> ''required user.name'']"
  by (simp add: eval_simps)

section \<open>Wildcard entries in the completeness pass\<close>

text \<open>
  Claim C2 at a concrete input. The table \<^verbatim>\<open>{"tags.*": ["required"]}\<close> and the map
  \<^verbatim>\<open>{"tags": ["a"]}\<close>: the only element of \<^verbatim>\<open>tags\<close> is present and passes, and the
  returned error map has an entry keyed by \<^verbatim>\<open>tags.*\<close>.
\<close>

theorem wildcard_required_reported:
  "ValidateMap exRegistry [(''tags'', SliceV [Scalar ''a''])] [(''tags.*'', [''required''])]
     = Inr [''tags.*'' \<mapsto> ''required tags.*'']"
  by (simp add: eval_simps)

section \<open>The annotation merger\<close>

lemma tagRel_refl: "tagRel v v"
  by (simp add: tagRel_def)

lemma tagRel_trans: "tagRel v v' \<Longrightarrow> tagRel v' v'' \<Longrightarrow> tagRel v v''"
  by (simp add: tagRel_def)

lemma fold_tagRel:
  assumes "\<And>x u. x \<in> set xs \<Longrightarrow> tagRel u (f x u)"
  shows "tagRel s (fold f xs s)"
  using assms
proof (induction xs arbitrary: s)
  case Nil
  then show ?case by (simp add: tagRel_refl)
next
  case (Cons x xs)
  have "tagRel s (f x s)" using Cons.prems by simp
  moreover have "tagRel (f x s) (fold f xs (f x s))" using Cons.prems by (intro Cons.IH) simp
  ultimately show ?case using tagRel_trans by auto
qed

lemma tagRel_insert:
  "map_of (rules v) name = None \<Longrightarrow> tagRel v (v\<lparr>rules := AList.update name spec (rules v)\<rparr>)"
  by (auto simp: tagRel_def update_conv')

lemma addTagRules_tagRel: "tagRel v (addTagRules v val t parName)"
proof (induction v val t parName rule: addTagRules.induct)
  case (1 v val t parName)
  let ?p = "makeParentNameJoinable parName"
  let ?v1 = "case val of
               MapV m \<Rightarrow>
                 fold (\<lambda>(k, i) v. if IsStruct i \<or> IsMap i \<or> IsSlice i
                                   then addTagRules v i (typeOf i) (?p @ k) else v) m v
             | _ \<Rightarrow> v"
  let ?v2 = "case val of
               SliceV s \<Rightarrow>
                 fold (\<lambda>(k, i) v. if IsStruct i \<or> IsMap i \<or> IsSlice i
                                   then addTagRules v i (typeOf i) (?p @ toString k) else v)
                      (enumerate 0 s) ?v1
             | _ \<Rightarrow> ?v1"
  have r1: "tagRel v ?v1"
  proof (cases val)
    case (MapV m)
    have "tagRel v (fold (\<lambda>(k, i) v. if IsStruct i \<or> IsMap i \<or> IsSlice i
                                   then addTagRules v i (typeOf i) (?p @ k) else v) m v)"
    proof (rule fold_tagRel)
      fix x u assume "x \<in> set m"
      then show "tagRel u ((\<lambda>(k, i) v. if IsStruct i \<or> IsMap i \<or> IsSlice i
                                   then addTagRules v i (typeOf i) (?p @ k) else v) x u)"
        using "1.IH"(1) [OF refl MapV, of x "fst x" "snd x" u]
        by (auto simp: tagRel_refl split: prod.splits)
    qed
    with MapV show ?thesis by simp
  qed (simp_all add: tagRel_refl)
  have r2: "tagRel ?v1 ?v2"
  proof (cases val)
    case (SliceV s)
    have "tagRel ?v1 (fold (\<lambda>(k, i) v. if IsStruct i \<or> IsMap i \<or> IsSlice i
                                   then addTagRules v i (typeOf i) (?p @ toString k) else v)
                      (enumerate 0 s) ?v1)"
    proof (rule fold_tagRel)
      fix x u assume "x \<in> set (enumerate 0 s)"
      then show "tagRel u ((\<lambda>(k, i) v. if IsStruct i \<or> IsMap i \<or> IsSlice i
                                   then addTagRules v i (typeOf i) (?p @ toString k) else v) x u)"
        using "1.IH"(2) [OF refl refl SliceV, of x "fst x" "snd x" u]
        by (auto simp: tagRel_refl split: prod.splits)
    qed
    with SliceV show ?thesis by simp
  qed (simp_all add: tagRel_refl)
  let ?body = "\<lambda>f v.
                      let typ = sf_type f;
                          name = ?p @ sf_name f;
                          tRules = sf_tag f;
                          v = (if map_of (rules v) name = None \<and> tRules \<noteq> []
                               then v\<lparr>rules := AList.update name (splitOn TagSeparator tRules) (rules v)\<rparr>
                               else v)
                      in (case Kind typ of
                            KOther \<Rightarrow> v
                          | _ \<Rightarrow> addTagRules v (structFieldV :: 'a val) typ name)"
  have r3: "tagRel ?v2 (case t of TStruct fs \<Rightarrow> fold ?body fs ?v2 | _ \<Rightarrow> ?v2)"
  proof (cases t)
    case (TStruct fs)
    have "tagRel ?v2 (fold ?body fs ?v2)"
    proof (rule fold_tagRel)
      fix f and u :: validation
      assume f: "f \<in> set fs"
      let ?name = "?p @ sf_name f"
      let ?u = "if map_of (rules u) ?name = None \<and> sf_tag f \<noteq> []
                then u\<lparr>rules := AList.update ?name (splitOn TagSeparator (sf_tag f)) (rules u)\<rparr>
                else u"
      have a: "tagRel u ?u" by (simp add: tagRel_refl tagRel_insert)
      have b: "tagRel ?u (case Kind (sf_type f) of KOther \<Rightarrow> ?u
                 | _ \<Rightarrow> addTagRules ?u (structFieldV :: 'a val) (sf_type f) ?name)"
      proof (cases "Kind (sf_type f)")
        case KStruct
        then show ?thesis
          using "1.IH"(3) [OF refl refl refl TStruct f refl refl refl refl, of u] by simp
      next
        case KMap
        then show ?thesis
          using "1.IH"(4) [OF refl refl refl TStruct f refl refl refl refl, of u] by simp
      next
        case KSlice
        then show ?thesis
          using "1.IH"(5) [OF refl refl refl TStruct f refl refl refl refl, of u] by simp
      next
        case KOther
        then show ?thesis by (simp add: tagRel_refl)
      qed
      from tagRel_trans [OF a b] show "tagRel u (?body f u)" by (simp add: Let_def)
    qed
    with TStruct show ?thesis by simp
  qed (simp_all add: tagRel_refl)
  have "addTagRules v val t parName = (case t of TStruct fs \<Rightarrow> fold ?body fs ?v2 | _ \<Rightarrow> ?v2)"
    by (subst addTagRules.simps) (simp add: Let_def)
  with tagRel_trans [OF tagRel_trans [OF r1 r2] r3] show ?case by simp
qed

lemma copyRules_id: "copyRules rs = rs"
  by (induction rs) (auto simp: copyRules_def)

lemma lookup_exact:
  "map_of (rules v) name = Some spec \<Longrightarrow> getFieldRules v name = spec"
  "map_of (rules v) name = Some spec \<Longrightarrow> getParentRules v name = spec"
  by (simp_all add: getFieldRules_def getParentRules_def)

text \<open>
  Claim C5. The annotation merger changes nothing but the rule table, and an entry
  that the table has at a path stays what it is, whatever tags the value carries: the
  merger inserts at a path only where the table has no entry. So the lookups of the
  traversal return the explicit spec at such a path, and the session that an entry
  point builds from the caller's table has the caller's spec at every path of that
  table.
\<close>

theorem explicit_rules_win:
  "errors (addTagRules v val t parName) = errors v \<and>
   fieldsExist (addTagRules v val t parName) = fieldsExist v \<and>
   (map_of (rules v) name = Some spec
      \<longrightarrow> map_of (rules (addTagRules v val t parName)) name = Some spec \<and>
          getFieldRules (addTagRules v val t parName) name = spec \<and>
          getParentRules (addTagRules v val t parName) name = spec) \<and>
   (map_of rs name = Some spec
      \<longrightarrow> map_of (rules (addTagRules (createNewValidation rs) val t [])) name = Some spec)"
proof -
  have rel: "tagRel w (addTagRules w val t p)" for w p
    by (rule addTagRules_tagRel)
  have keep: "map_of (rules (addTagRules w val t p)) name = Some spec"
    if "map_of (rules w) name = Some spec" for w p
    using rel [of w p] that by (simp add: tagRel_def)
  have "map_of (rules (createNewValidation rs)) name = map_of rs name"
    by (simp add: createNewValidation_def copyRules_id)
  with keep [of v parName] keep [of "createNewValidation rs" "[]"] rel [of v parName]
  show ?thesis by (simp add: tagRel_def lookup_exact)
qed

theorem explicit_rules_win_witness:
  "map_of [(''Age'', [''min:2''])] ''Age'' = Some [''min:2''] \<and>
   rules (addTagRules (createNewValidation [(''Age'', [''min:2''])])
       (Struct [Field ''Age'' ''required'' TOther True (Scalar []),
                Field ''Name'' ''required|min:2'' TOther True (Scalar ''x'')])
       (TStruct [SField ''Age'' ''required'' TOther, SField ''Name'' ''required|min:2'' TOther]) [])
     = [(''Age'', [''min:2'']), (''Name'', [''required'', ''min:2''])] \<and>
   getFieldRules (addTagRules (createNewValidation [(''Age'', [''min:2''])])
       (Struct [Field ''Age'' ''required'' TOther True (Scalar []),
                Field ''Name'' ''required|min:2'' TOther True (Scalar ''x'')])
       (TStruct [SField ''Age'' ''required'' TOther, SField ''Name'' ''required|min:2'' TOther]) [])
       ''Age'' = [''min:2''] \<and>
   ValidateStruct exRegistry
       (Struct [Field ''Age'' ''required'' TOther True (Scalar []),
                Field ''Name'' ''required|min:2'' TOther True (Scalar ''x'')])
       [(''Age'', [''min:2''])]
     = Inr [''Age'' \<mapsto> ''min Age'', ''Name'' \<mapsto> ''min Name'']"
  using explicit_rules_win [where v = "createNewValidation [(''Age'', [''min:2''])]"
      and val = "Struct [Field ''Age'' ''required'' TOther True (Scalar []),
                Field ''Name'' ''required|min:2'' TOther True (Scalar ''x'')]"
      and t = "TStruct [SField ''Age'' ''required'' TOther, SField ''Name'' ''required|min:2'' TOther]"
      and parName = "[]" and name = "''Age''" and spec = "[''min:2'']"
      and rs = "[(''Age'', [''min:2''])]"]
  by (simp add: eval_simps TagSeparator_def AList.update.simps)

section \<open>Rule lookup\<close>

text \<open>
  Claim C4, as amended. Both lookups return the spec at the exact path when the table
  has one. Without an exact entry, \<^verbatim>\<open>getParentRules\<close>, which resolves the own rules of
  a struct, map or slice and is the only lookup made for the root, falls back to the
  entry keyed by the parent path and \<^verbatim>\<open>.*\<close> when the path is not empty and returns
  the empty spec when it is; so the root is never governed by a wildcard entry and,
  without an entry at the empty path, a root composite goes straight to its children.
  \<^verbatim>\<open>getFieldRules\<close>, which resolves the rules of a scalar child, falls back to that
  wildcard entry for every path, the empty one included (a child with the empty key
  directly under the root). A key that the table does not have reads as the empty spec.
\<close>

theorem rule_lookup:
  "(map_of (rules v) name = Some spec
      \<longrightarrow> getParentRules v name = spec \<and> getFieldRules v name = spec) \<and>
   (map_of (rules v) name = None \<and> name \<noteq> []
      \<longrightarrow> getParentRules v name = rulesAt (rules v) (getParentName name @ ''.*'')) \<and>
   (map_of (rules v) [] = None \<longrightarrow> getParentRules v [] = []) \<and>
   (map_of (rules v) name = None
      \<longrightarrow> getFieldRules v name = rulesAt (rules v) (getParentName name @ ''.*'')) \<and>
   (map_of (rules v) key = None \<longrightarrow> rulesAt (rules v) key = []) \<and>
   (map_of (rules v) key = Some spec \<longrightarrow> rulesAt (rules v) key = spec) \<and>
   (map_of (rules v) [] = None
      \<longrightarrow> validateMap h v (MapV m) [] = validateMapFields h v m [] \<and>
          validateSlice h v (SliceV s) [] = validateSliceFields h v s [] \<and>
          validateStruct h v (Struct fs) [] = validateStructFields h v fs [])"
  by (simp add: getParentRules_def getFieldRules_def rulesAt_def
      validateMap.simps validateSlice.simps validateStruct.simps)

theorem rule_lookup_witness:
  "map_of [(''tags.*'', [''min:2'']), (''tags'', [''required''])] ''tags'' = Some [''required''] \<and>
   getParentRules \<lparr>rules = [(''tags.*'', [''min:2'']), (''tags'', [''required''])],
       errors = Map.empty, fieldsExist = {}\<rparr> ''tags'' = [''required''] \<and>
   map_of [(''tags.*'', [''min:2'']), (''tags'', [''required''])] ''tags.0'' = None \<and>
   getParentRules \<lparr>rules = [(''tags.*'', [''min:2'']), (''tags'', [''required''])],
       errors = Map.empty, fieldsExist = {}\<rparr> ''tags.0'' = [''min:2''] \<and>
   getFieldRules \<lparr>rules = [(''tags.*'', [''min:2'']), (''tags'', [''required''])],
       errors = Map.empty, fieldsExist = {}\<rparr> ''tags.0'' = [''min:2''] \<and>
   map_of [(''tags.*'', [''min:2'']), (''tags'', [''required''])] [] = None \<and>
   getParentRules \<lparr>rules = [(''tags.*'', [''min:2'']), (''tags'', [''required''])],
       errors = Map.empty, fieldsExist = {}\<rparr> [] = [] \<and>
   validateMap exRegistry \<lparr>rules = [(''tags.*'', [''min:2'']), (''tags'', [''required''])],
       errors = Map.empty, fieldsExist = {}\<rparr> (MapV []) []
     = Inr \<lparr>rules = [(''tags.*'', [''min:2'']), (''tags'', [''required''])],
       errors = Map.empty, fieldsExist = {}\<rparr>"
  using rule_lookup [where v = "\<lparr>rules = [(''tags.*'', [''min:2'']), (''tags'', [''required''])],
       errors = Map.empty, fieldsExist = {}\<rparr>" and name = "''tags''" and spec = "[''required'']"
       and key = "''tags''"]
    rule_lookup [where v = "\<lparr>rules = [(''tags.*'', [''min:2'']), (''tags'', [''required''])],
       errors = Map.empty, fieldsExist = {}\<rparr>" and name = "''tags.0''" and key = "''x''"
       and h = exRegistry and m = "[]"]
  by (simp add: eval_simps)

text \<open>
  The claim as stated fails for the field lookup at the empty path: with an entry at
  the wildcard key of the empty path and none at the empty path itself,
  \<^verbatim>\<open>getFieldRules\<close> returns the wildcard spec, not the empty one. The map \<^verbatim>\<open>{"": ""}\<close>
  reaches that lookup: its only child has the empty path and fails the wildcard rule.
\<close>

theorem rule_lookup_counterexample:
  "map_of [(getParentName [] @ ''.*'', [''min:2''])] [] = None \<and>
   getFieldRules \<lparr>rules = [(getParentName [] @ ''.*'', [''min:2''])],
       errors = Map.empty, fieldsExist = {}\<rparr> [] = [''min:2''] \<and>
   ValidateMap exRegistry [([], Scalar [])] [(''.*'', [''min:2''])]
     = Inr [[] \<mapsto> ''min '']"
  by (simp add: eval_simps)

section \<open>Panics\<close>

lemma foldE_append:
  "foldE f (xs @ ys) s = (case foldE f xs s of Inl e \<Rightarrow> Inl e | Inr s' \<Rightarrow> foldE f ys s')"
  by (induction xs arbitrary: s) (auto split: sum.splits)

lemma foldE_panics:
  "foldE f xs s = Inr s1 \<Longrightarrow> f x s1 = Inl p \<Longrightarrow> foldE f (xs @ x # ys) s = Inl p"
  by (simp add: foldE_append)

lemma validateMapFields_panics:
  "validateMapFields h v ms parName = Inr v1 \<Longrightarrow>
   validateByType h v1 (makeParentNameJoinable parName @ k) (typeOf x) x = Inl p \<Longrightarrow>
   validateMapFields h v (ms @ (k, x) # ms') parName = Inl p"
  by (simp add: validateMapFields.simps foldE_append)

lemma validateSliceFields_panics:
  "validateSliceFields h v ss parName = Inr v1 \<Longrightarrow>
   validateByType h v1 (makeParentNameJoinable parName @ toString (length ss)) (typeOf x) x = Inl p \<Longrightarrow>
   validateSliceFields h v (ss @ x # ss') parName = Inl p"
  by (simp add: validateSliceFields.simps foldE_append enumerate_append_eq)

lemma validateStructFields_panics:
  "validateStructFields h v fs parName = Inr v1 \<Longrightarrow> f_exported f \<Longrightarrow>
   validateByType h v1 (makeParentNameJoinable parName @ f_name f) (f_type f) (f_val f) = Inl p \<Longrightarrow>
   validateStructFields h v (fs @ f # fs') parName = Inl p"
  by (simp add: validateStructFields.simps foldE_append)

lemma validateByType_panics:
  "t \<noteq> TNil \<Longrightarrow> Kind t = KOther \<Longrightarrow>
     Validate h name val (getFieldRules (registerField v name) name) = Inl p \<Longrightarrow>
     validateByType h v name t val = Inl p"
  "t \<noteq> TNil \<Longrightarrow> Kind t = KStruct \<Longrightarrow> validateStruct h (registerField v name) val name = Inl p \<Longrightarrow>
     validateByType h v name t val = Inl p"
  "t \<noteq> TNil \<Longrightarrow> Kind t = KMap \<Longrightarrow> validateMap h (registerField v name) val name = Inl p \<Longrightarrow>
     validateByType h v name t val = Inl p"
  "t \<noteq> TNil \<Longrightarrow> Kind t = KSlice \<Longrightarrow> validateSlice h (registerField v name) val name = Inl p \<Longrightarrow>
     validateByType h v name t val = Inl p"
  by (simp_all add: validateByType.simps)

lemma entry_panics:
  "validateMap h (addTagRules (createNewValidation rs) (MapV m) (typeOf (MapV m)) []) (MapV m) [] = Inl p
     \<Longrightarrow> ValidateMap h m rs = Inl p"
  "validateSlice h (addTagRules (createNewValidation rs) (SliceV s) (typeOf (SliceV s)) []) (SliceV s) [] = Inl p
     \<Longrightarrow> ValidateSlice h s rs = Inl p"
  "IsStruct val \<Longrightarrow>
   validateStruct h (addTagRules (createNewValidation rs) val (typeOf val) []) val [] = Inl p
     \<Longrightarrow> ValidateStruct h val rs = Inl p"
  by (simp_all add: ValidateMap_def ValidateSlice_def ValidateStruct_def)

lemma Validate_unknown:
  "list_all (rulePasses h name val) ps \<Longrightarrow> r \<noteq> [] \<Longrightarrow> getRuleInfo h r = (rName, rVal, None) \<Longrightarrow>
   Validate h name val (ps @ r # qs) = Inl (UnknownRule rName)"
  by (simp add: Validate_passes_append)

text \<open>
  Claim C7. When \<^verbatim>\<open>Validate\<close> reaches an expression whose rule name the registry does
  not have (every expression before it passes), it panics with that name. A panic is
  not a session: each function of the traversal that gets a panic from the evaluator,
  from the node it dispatches to or from a child in its loop returns that panic, and
  so does the entry point, which then returns no error map at all.
\<close>

theorem unknown_rule_aborts:
  "(list_all (rulePasses h name val) ps \<and> r \<noteq> [] \<and> getRuleInfo h r = (rName, rVal, None)
      \<longrightarrow> Validate h name val (ps @ r # qs) = Inl (UnknownRule rName)) \<and>
   (Validate h name val (getParentRules v name) = Inl p
      \<longrightarrow> validateStruct h v val name = Inl p) \<and>
   (Validate h name (MapV m) (getParentRules v name) = Inl p
      \<longrightarrow> validateMap h v (MapV m) name = Inl p) \<and>
   (Validate h name (SliceV s) (getParentRules v name) = Inl p
      \<longrightarrow> validateSlice h v (SliceV s) name = Inl p) \<and>
   (t \<noteq> TNil \<and> Kind t = KOther \<and>
      Validate h name val (getFieldRules (registerField v name) name) = Inl p
      \<longrightarrow> validateByType h v name t val = Inl p) \<and>
   (t \<noteq> TNil \<and>
      (Kind t = KStruct \<and> validateStruct h (registerField v name) val name = Inl p \<or>
       Kind t = KMap \<and> validateMap h (registerField v name) val name = Inl p \<or>
       Kind t = KSlice \<and> validateSlice h (registerField v name) val name = Inl p)
      \<longrightarrow> validateByType h v name t val = Inl p) \<and>
   (validateMapFields h v ms parName = Inr v1 \<and>
      validateByType h v1 (makeParentNameJoinable parName @ k) (typeOf x) x = Inl p
      \<longrightarrow> validateMapFields h v (ms @ (k, x) # ms') parName = Inl p) \<and>
   (validateSliceFields h v ss parName = Inr v1 \<and>
      validateByType h v1 (makeParentNameJoinable parName @ toString (length ss)) (typeOf x) x = Inl p
      \<longrightarrow> validateSliceFields h v (ss @ x # ss') parName = Inl p) \<and>
   (validateStructFields h v fs parName = Inr v1 \<and> f_exported f \<and>
      validateByType h v1 (makeParentNameJoinable parName @ f_name f) (f_type f) (f_val f) = Inl p
      \<longrightarrow> validateStructFields h v (fs @ f # fs') parName = Inl p) \<and>
   (Validate h name (MapV m) (getParentRules v name) = Inr None \<and>
      validateMapFields h v m name = Inl p
      \<longrightarrow> validateMap h v (MapV m) name = Inl p) \<and>
   (Validate h name (SliceV s) (getParentRules v name) = Inr None \<and>
      validateSliceFields h v s name = Inl p
      \<longrightarrow> validateSlice h v (SliceV s) name = Inl p) \<and>
   (Validate h name (Struct fl) (getParentRules v name) = Inr None \<and>
      validateStructFields h v fl name = Inl p
      \<longrightarrow> validateStruct h v (Struct fl) name = Inl p) \<and>
   (validateMap h (addTagRules (createNewValidation rs) (MapV m) (typeOf (MapV m)) []) (MapV m) []
        = Inl p
      \<longrightarrow> ValidateMap h m rs = Inl p) \<and>
   (validateSlice h (addTagRules (createNewValidation rs) (SliceV s) (typeOf (SliceV s)) [])
        (SliceV s) [] = Inl p
      \<longrightarrow> ValidateSlice h s rs = Inl p) \<and>
   (IsStruct val \<and>
      validateStruct h (addTagRules (createNewValidation rs) val (typeOf val) []) val [] = Inl p
      \<longrightarrow> ValidateStruct h val rs = Inl p)"
  by (intro conjI impI)
     (auto simp: Validate_unknown validateStruct_cases validateMap_cases validateSlice_cases
       validateByType_panics validateMapFields_panics validateSliceFields_panics
       validateStructFields_panics entry_panics)

theorem unknown_rule_aborts_witness:
  "getRuleInfo exRegistry ''nosuch'' = (''nosuch'', [], None) \<and>
   Validate exRegistry ''a'' (Scalar ''x'') [''nosuch''] = Inl (UnknownRule ''nosuch'') \<and>
   validateByType exRegistry (createNewValidation [(''a'', [''nosuch''])]) ''a'' TOther (Scalar ''x'')
     = Inl (UnknownRule ''nosuch'') \<and>
   validateByType exRegistry (createNewValidation [(''a'', [''nosuch''])]) ''a'' TMapSI (MapV [])
     = Inl (UnknownRule ''nosuch'') \<and>
   validateMapFields exRegistry (createNewValidation [(''a'', [''nosuch''])]) [(''a'', Scalar ''x'')] []
     = Inl (UnknownRule ''nosuch'') \<and>
   validateSliceFields exRegistry (createNewValidation [(''0'', [''nosuch''])]) [Scalar ''x''] []
     = Inl (UnknownRule ''nosuch'') \<and>
   validateStructFields exRegistry (createNewValidation [(''a'', [''nosuch''])])
       [Field ''a'' [] TOther True (Scalar ''x'')] []
     = Inl (UnknownRule ''nosuch'') \<and>
   validateMap exRegistry (createNewValidation [(''a'', [''nosuch''])]) (MapV [(''a'', Scalar ''x'')]) []
     = Inl (UnknownRule ''nosuch'') \<and>
   ValidateMap exRegistry [(''a'', Scalar ''x'')] [(''a'', [''nosuch''])]
     = Inl (UnknownRule ''nosuch'') \<and>
   ValidateSlice exRegistry [Scalar ''x''] [(''0'', [''nosuch''])] = Inl (UnknownRule ''nosuch'') \<and>
   ValidateStruct exRegistry (Struct [Field ''a'' [] TOther True (Scalar ''x'')])
       [(''a'', [''nosuch''])] = Inl (UnknownRule ''nosuch'')"
  using unknown_rule_aborts [where h = exRegistry and name = "''a''" and val = "Scalar ''x''"
      and ps = "[]" and r = "''nosuch''" and rName = "''nosuch''" and rVal = "[]" and qs = "[]"
      and v = "createNewValidation [(''a'', [''nosuch''])]" and p = "UnknownRule ''nosuch''"
      and m = "[(''a'', Scalar ''x'')]" and s = "[]" and t = TOther
      and ms = "[]" and parName = "[]" and ?v1.0 = "createNewValidation [(''a'', [''nosuch''])]"
      and k = "''a''" and x = "Scalar ''x''" and ms' = "[]"
      and fs = "[]" and f = "Field ''a'' [] TOther True (Scalar ''x'')" and fs' = "[]"
      and rs = "[(''a'', [''nosuch''])]"]
    unknown_rule_aborts [where h = exRegistry and name = "[]"
      and val = "Struct [Field ''a'' [] TOther True (Scalar ''x'')]"
      and v = "createNewValidation [(''a'', [''nosuch''])]" and p = "UnknownRule ''nosuch''"
      and m = "[(''a'', Scalar ''x'')]" and fl = "[Field ''a'' [] TOther True (Scalar ''x'')]"
      and rs = "[(''a'', [''nosuch''])]"]
    unknown_rule_aborts [where h = exRegistry and name = "''a''" and val = "MapV []"
      and v = "createNewValidation [(''a'', [''nosuch''])]" and p = "UnknownRule ''nosuch''"
      and t = TMapSI]
    unknown_rule_aborts [where h = exRegistry and name = "[]"
      and v = "createNewValidation [(''0'', [''nosuch''])]" and p = "UnknownRule ''nosuch''"
      and s = "[Scalar ''x'']" and ss = "[]" and x = "Scalar ''x''" and ss' = "[]"
      and parName = "[]" and ?v1.0 = "createNewValidation [(''0'', [''nosuch''])]"
      and rs = "[(''0'', [''nosuch''])]"]
  by (simp add: eval_simps rulePasses_def)

lemma validateByType_unsupported:
  "t \<noteq> TNil \<Longrightarrow> Kind t = KMap \<Longrightarrow> typeOf val \<noteq> TMapSI \<Longrightarrow>
     validateByType h v name t val = Inl (UnsupportedType name)"
  "t \<noteq> TNil \<Longrightarrow> Kind t = KSlice \<Longrightarrow> typeOf val \<noteq> TSliceI \<Longrightarrow>
     validateByType h v name t val = Inl (UnsupportedType name)"
  by (simp_all add: validateByType.simps validateMap_cases validateSlice_cases)

text \<open>
  Claim C8. \<^verbatim>\<open>validateMap\<close> on a value whose type is not \<^verbatim>\<open>map[string]interface{}\<close> and
  \<^verbatim>\<open>validateSlice\<close> on a value whose type is not \<^verbatim>\<open>[]interface{}\<close> panic, before any
  rule is evaluated and without touching the session; so does \<^verbatim>\<open>validateByType\<close> when
  it dispatches such a value as a map or a slice, and so does each of the three loops
  over children at the first such child. A panic is not a session: the loops return the
  panic of a child, \<^verbatim>\<open>validateByType\<close> returns the panic of the node it dispatches to,
  \<^verbatim>\<open>validateStruct\<close>, \<^verbatim>\<open>validateMap\<close> and \<^verbatim>\<open>validateSlice\<close> return the panic of
  their loop, and \<^verbatim>\<open>ValidateStruct\<close>, \<^verbatim>\<open>ValidateMap\<close> and \<^verbatim>\<open>ValidateSlice\<close> return
  the panic of the traversal, so from whatever depth the panic comes the call returns
  it and no error map.
\<close>

theorem noncanonical_shape_aborts:
  "(typeOf val \<noteq> TMapSI \<longrightarrow> validateMap h v val name = Inl (UnsupportedType name)) \<and>
   (typeOf val \<noteq> TSliceI \<longrightarrow> validateSlice h v val name = Inl (UnsupportedType name)) \<and>
   (t \<noteq> TNil \<and> Kind t = KMap \<and> typeOf val \<noteq> TMapSI
      \<longrightarrow> validateByType h v name t val = Inl (UnsupportedType name)) \<and>
   (t \<noteq> TNil \<and> Kind t = KSlice \<and> typeOf val \<noteq> TSliceI
      \<longrightarrow> validateByType h v name t val = Inl (UnsupportedType name)) \<and>
   (validateMapFields h v ms parName = Inr v1 \<and> (typeOf x = TMapOther \<or> typeOf x = TSliceOther)
      \<longrightarrow> validateMapFields h v (ms @ (k, x) # ms') parName
            = Inl (UnsupportedType (makeParentNameJoinable parName @ k))) \<and>
   (validateSliceFields h v ss parName = Inr v1 \<and> (typeOf x = TMapOther \<or> typeOf x = TSliceOther)
      \<longrightarrow> validateSliceFields h v (ss @ x # ss') parName
            = Inl (UnsupportedType (makeParentNameJoinable parName @ toString (length ss)))) \<and>
   (validateStructFields h v fs parName = Inr v1 \<and> f_exported f \<and>
      (Kind (f_type f) = KMap \<and> typeOf (f_val f) \<noteq> TMapSI \<or>
       Kind (f_type f) = KSlice \<and> typeOf (f_val f) \<noteq> TSliceI)
      \<longrightarrow> validateStructFields h v (fs @ f # fs') parName
            = Inl (UnsupportedType (makeParentNameJoinable parName @ f_name f))) \<and>
   (validateMapFields h v ms parName = Inr v1 \<and>
      validateByType h v1 (makeParentNameJoinable parName @ k) (typeOf x) x = Inl p
      \<longrightarrow> validateMapFields h v (ms @ (k, x) # ms') parName = Inl p) \<and>
   (validateSliceFields h v ss parName = Inr v1 \<and>
      validateByType h v1 (makeParentNameJoinable parName @ toString (length ss)) (typeOf x) x = Inl p
      \<longrightarrow> validateSliceFields h v (ss @ x # ss') parName = Inl p) \<and>
   (validateStructFields h v fs parName = Inr v1 \<and> f_exported f \<and>
      validateByType h v1 (makeParentNameJoinable parName @ f_name f) (f_type f) (f_val f) = Inl p
      \<longrightarrow> validateStructFields h v (fs @ f # fs') parName = Inl p) \<and>
   (t \<noteq> TNil \<and>
      (Kind t = KStruct \<and> validateStruct h (registerField v name) val name = Inl p \<or>
       Kind t = KMap \<and> validateMap h (registerField v name) val name = Inl p \<or>
       Kind t = KSlice \<and> validateSlice h (registerField v name) val name = Inl p)
      \<longrightarrow> validateByType h v name t val = Inl p) \<and>
   (Validate h name (MapV m) (getParentRules v name) = Inr None \<and>
      validateMapFields h v m name = Inl p
      \<longrightarrow> validateMap h v (MapV m) name = Inl p) \<and>
   (Validate h name (SliceV s) (getParentRules v name) = Inr None \<and>
      validateSliceFields h v s name = Inl p
      \<longrightarrow> validateSlice h v (SliceV s) name = Inl p) \<and>
   (Validate h name (Struct fl) (getParentRules v name) = Inr None \<and>
      validateStructFields h v fl name = Inl p
      \<longrightarrow> validateStruct h v (Struct fl) name = Inl p) \<and>
   (validateMap h (addTagRules (createNewValidation rs) (MapV m) (typeOf (MapV m)) []) (MapV m) []
        = Inl p
      \<longrightarrow> ValidateMap h m rs = Inl p) \<and>
   (validateSlice h (addTagRules (createNewValidation rs) (SliceV s) (typeOf (SliceV s)) [])
        (SliceV s) [] = Inl p
      \<longrightarrow> ValidateSlice h s rs = Inl p) \<and>
   (IsStruct val \<and>
      validateStruct h (addTagRules (createNewValidation rs) val (typeOf val) []) val [] = Inl p
      \<longrightarrow> ValidateStruct h val rs = Inl p)"
proof -
  have direct_map: "validateMapFields h v (ms @ (k, x) # ms') parName
            = Inl (UnsupportedType (makeParentNameJoinable parName @ k))"
    if a: "validateMapFields h v ms parName = Inr v1 \<and> (typeOf x = TMapOther \<or> typeOf x = TSliceOther)"
  proof -
    from a have "validateByType h v1 (makeParentNameJoinable parName @ k) (typeOf x) x
        = Inl (UnsupportedType (makeParentNameJoinable parName @ k))"
      by (auto simp: validateByType_unsupported)
    with a show ?thesis by (simp add: validateMapFields_panics)
  qed
  have direct_slice: "validateSliceFields h v (ss @ x # ss') parName
            = Inl (UnsupportedType (makeParentNameJoinable parName @ toString (length ss)))"
    if a: "validateSliceFields h v ss parName = Inr v1 \<and> (typeOf x = TMapOther \<or> typeOf x = TSliceOther)"
  proof -
    from a have "validateByType h v1 (makeParentNameJoinable parName @ toString (length ss)) (typeOf x) x
        = Inl (UnsupportedType (makeParentNameJoinable parName @ toString (length ss)))"
      by (auto simp: validateByType_unsupported)
    with a show ?thesis by (simp add: validateSliceFields_panics)
  qed
  have direct_struct: "validateStructFields h v (fs @ f # fs') parName
            = Inl (UnsupportedType (makeParentNameJoinable parName @ f_name f))"
    if a: "validateStructFields h v fs parName = Inr v1 \<and> f_exported f \<and>
      (Kind (f_type f) = KMap \<and> typeOf (f_val f) \<noteq> TMapSI \<or>
       Kind (f_type f) = KSlice \<and> typeOf (f_val f) \<noteq> TSliceI)"
  proof -
    from a have "f_type f \<noteq> TNil" by auto
    with a have "validateByType h v1 (makeParentNameJoinable parName @ f_name f) (f_type f) (f_val f)
        = Inl (UnsupportedType (makeParentNameJoinable parName @ f_name f))"
      by (auto simp: validateByType_unsupported)
    with a show ?thesis by (simp add: validateStructFields_panics)
  qed
  have dispatch: "validateByType h v name t val = Inl p"
    if "t \<noteq> TNil \<and>
      (Kind t = KStruct \<and> validateStruct h (registerField v name) val name = Inl p \<or>
       Kind t = KMap \<and> validateMap h (registerField v name) val name = Inl p \<or>
       Kind t = KSlice \<and> validateSlice h (registerField v name) val name = Inl p)"
    using that by (auto simp: validateByType_panics)
  show ?thesis
    using direct_map direct_slice direct_struct dispatch
    by (simp add: validateMap_cases validateSlice_cases validateStruct_cases
        validateByType_unsupported validateMapFields_panics validateSliceFields_panics
        validateStructFields_panics entry_panics)
qed

theorem noncanonical_shape_aborts_witness:
  "validateMap exRegistry (createNewValidation []) (OtherMap ''map[string]int'') ''a''
     = Inl (UnsupportedType ''a'') \<and>
   validateSlice exRegistry (createNewValidation []) (OtherSlice ''[]int'') ''a''
     = Inl (UnsupportedType ''a'') \<and>
   validateByType exRegistry (createNewValidation []) ''a'' TMapOther (OtherMap ''map[string]int'')
     = Inl (UnsupportedType ''a'') \<and>
   validateByType exRegistry (createNewValidation []) ''a'' TSliceOther (OtherSlice ''[]int'')
     = Inl (UnsupportedType ''a'') \<and>
   validateMapFields exRegistry (createNewValidation []) [] [] = Inr (createNewValidation []) \<and>
   validateMapFields exRegistry (createNewValidation []) [(''a'', OtherMap ''map[string]int'')] []
     = Inl (UnsupportedType ''a'') \<and>
   validateSliceFields exRegistry (createNewValidation []) [OtherMap ''map[string]int''] []
     = Inl (UnsupportedType ''0'') \<and>
   validateStructFields exRegistry (createNewValidation [])
       [Field ''Tags'' [] TSliceOther True (OtherSlice ''[]string'')] []
     = Inl (UnsupportedType ''Tags'') \<and>
   validateByType exRegistry (createNewValidation []) ''a'' TSliceI (SliceV [OtherMap ''map[string]int''])
     = Inl (UnsupportedType ''a.0'') \<and>
   ValidateMap exRegistry [(''a'', OtherMap ''map[string]int'')] [] = Inl (UnsupportedType ''a'') \<and>
   ValidateMap exRegistry [(''a'', SliceV [OtherMap ''map[string]int''])] []
     = Inl (UnsupportedType ''a.0'') \<and>
   ValidateSlice exRegistry [OtherMap ''map[string]int''] [] = Inl (UnsupportedType ''0'') \<and>
   ValidateStruct exRegistry (Struct [Field ''Tags'' [] TSliceOther True (OtherSlice ''[]string'')]) []
     = Inl (UnsupportedType ''Tags'')"
  using
    noncanonical_shape_aborts [where
      h = "exRegistry" and v = "createNewValidation []"
      and val = "OtherMap ''map[string]int''" and name = "''a''" and t = "TMapOther"
      and ms = "[]" and parName = "[]" and ?v1.0 = "createNewValidation []"
      and x = "OtherMap ''map[string]int''" and k = "''a''" and ms' = "[]" and ss = "[]"
      and ss' = "[]" and fs = "[]" and fs' = "[]"
      and f = "Field ''Tags'' [] TSliceOther True (OtherSlice ''[]string'')"
      and p = "UnsupportedType ''a''" and m = "[]" and s = "[]" and fl = "[]" and rs = "[]"]
    noncanonical_shape_aborts [where
      h = "exRegistry" and v = "createNewValidation []" and val = "OtherSlice ''[]int''"
      and name = "''a''" and t = "TSliceOther" and ms = "[]" and parName = "[]"
      and ?v1.0 = "createNewValidation []" and x = "OtherMap ''map[string]int''"
      and k = "''a''" and ms' = "[]" and ss = "[]" and ss' = "[]" and fs = "[]"
      and fs' = "[]" and f = "Field ''Tags'' [] TSliceOther True (OtherSlice ''[]string'')"
      and p = "UnsupportedType ''a''" and m = "[]" and s = "[]" and fl = "[]" and rs = "[]"]
    noncanonical_shape_aborts [where
      h = "exRegistry" and v = "createNewValidation []"
      and val = "SliceV [OtherMap ''map[string]int'']" and name = "''a''" and t = "TSliceI"
      and ms = "[]" and parName = "[]" and ?v1.0 = "createNewValidation []"
      and x = "OtherMap ''map[string]int''" and k = "''a''" and ms' = "[]" and ss = "[]"
      and ss' = "[]" and fs = "[]" and fs' = "[]"
      and f = "Field ''Tags'' [] TSliceOther True (OtherSlice ''[]string'')"
      and p = "UnsupportedType ''a.0''" and m = "[]" and s = "[]" and fl = "[]"
      and rs = "[]"]
    noncanonical_shape_aborts [where
      h = "exRegistry" and v = "createNewValidation []"
      and val = "OtherMap ''map[string]int''" and name = "[]" and t = "TMapOther"
      and ms = "[]" and parName = "[]" and ?v1.0 = "createNewValidation []"
      and x = "OtherMap ''map[string]int''" and k = "''a''" and ms' = "[]" and ss = "[]"
      and ss' = "[]" and fs = "[]" and fs' = "[]"
      and f = "Field ''Tags'' [] TSliceOther True (OtherSlice ''[]string'')"
      and p = "UnsupportedType ''a''" and m = "[(''a'', OtherMap ''map[string]int'')]"
      and s = "[]" and fl = "[]" and rs = "[]"]
    noncanonical_shape_aborts [where
      h = "exRegistry" and v = "createNewValidation []"
      and val = "OtherMap ''map[string]int''" and name = "[]" and t = "TMapOther"
      and ms = "[]" and parName = "[]" and ?v1.0 = "createNewValidation []"
      and x = "OtherMap ''map[string]int''" and k = "''a''" and ms' = "[]" and ss = "[]"
      and ss' = "[]" and fs = "[]" and fs' = "[]"
      and f = "Field ''Tags'' [] TSliceOther True (OtherSlice ''[]string'')"
      and p = "UnsupportedType ''0''" and m = "[]" and s = "[OtherMap ''map[string]int'']"
      and fl = "[]" and rs = "[]"]
    noncanonical_shape_aborts [where
      h = "exRegistry" and v = "createNewValidation []"
      and val = "Struct [Field ''Tags'' [] TSliceOther True (OtherSlice ''[]string'')]"
      and name = "[]" and t = "TMapOther" and ms = "[]" and parName = "[]"
      and ?v1.0 = "createNewValidation []" and x = "OtherMap ''map[string]int''"
      and k = "''a''" and ms' = "[]" and ss = "[]" and ss' = "[]" and fs = "[]"
      and fs' = "[]" and f = "Field ''Tags'' [] TSliceOther True (OtherSlice ''[]string'')"
      and p = "UnsupportedType ''Tags''" and m = "[]" and s = "[]"
      and fl = "[Field ''Tags'' [] TSliceOther True (OtherSlice ''[]string'')]"
      and rs = "[]"]
    noncanonical_shape_aborts [where
      h = "exRegistry" and v = "createNewValidation []"
      and val = "OtherMap ''map[string]int''" and name = "[]" and t = "TMapOther"
      and ms = "[]" and parName = "[]" and ?v1.0 = "createNewValidation []"
      and x = "SliceV [OtherMap ''map[string]int'']" and k = "''a''" and ms' = "[]"
      and ss = "[]" and ss' = "[]" and fs = "[]" and fs' = "[]"
      and f = "Field ''Tags'' [] TSliceOther True (OtherSlice ''[]string'')"
      and p = "UnsupportedType ''a.0''"
      and m = "[(''a'', SliceV [OtherMap ''map[string]int''])]" and s = "[]" and fl = "[]"
      and rs = "[]"]
  by (simp add: eval_simps structFieldV_def)

section \<open>Validating twice\<close>

lemma ValidateMapAt_eq:
  "a < length ts \<Longrightarrow>
   fst (ValidateMapAt h val a ts) = ValidateMap h val (ts ! a) \<and>
   length (snd (ValidateMapAt h val a ts)) = Suc (length ts) \<and>
   (\<forall>i < length ts. snd (ValidateMapAt h val a ts) ! i = ts ! i)"
  by (auto simp: ValidateMapAt_def ValidateMap_def createNewValidationAt_def Let_def
      nth_append split: sum.splits)

lemma ValidateSliceAt_eq:
  "a < length ts \<Longrightarrow>
   fst (ValidateSliceAt h val a ts) = ValidateSlice h val (ts ! a) \<and>
   length (snd (ValidateSliceAt h val a ts)) = Suc (length ts) \<and>
   (\<forall>i < length ts. snd (ValidateSliceAt h val a ts) ! i = ts ! i)"
  by (auto simp: ValidateSliceAt_def ValidateSlice_def createNewValidationAt_def Let_def
      nth_append split: sum.splits)

lemma ValidateStructAt_eq:
  "a < length ts \<Longrightarrow>
   fst (ValidateStructAt h val a ts) = ValidateStruct h val (ts ! a) \<and>
   length ts \<le> length (snd (ValidateStructAt h val a ts)) \<and>
   (\<forall>i < length ts. snd (ValidateStructAt h val a ts) ! i = ts ! i)"
  by (auto simp: ValidateStructAt_def ValidateStruct_def createNewValidationAt_def Let_def
      nth_append split: sum.splits)

text \<open>
  Claim C9, as amended. The caller's table is the object at address \<open>a\<close>. An entry point
  creates the session on a new object, whose address is not \<open>a\<close>, and leaves every
  object that existed before the call as it was; in particular the caller's table is
  not mutated. Its result is the result of the validator on the contents of the
  caller's table. So a second call with the same value, delivered in the same order,
  and the same table object, made after the first, returns the same result and leaves
  the caller's table unchanged again.
\<close>

theorem validate_twice:
  "a < length ts \<longrightarrow>
     fst (createNewValidationAt ts a) ! fst (snd (createNewValidationAt ts a)) = ts ! a \<and>
     fst (snd (createNewValidationAt ts a)) \<noteq> a \<and>
     fst (ValidateMapAt h m a ts) = ValidateMap h m (ts ! a) \<and>
     snd (ValidateMapAt h m a ts) ! a = ts ! a \<and>
     fst (ValidateMapAt h m a (snd (ValidateMapAt h m a ts))) = fst (ValidateMapAt h m a ts) \<and>
     snd (ValidateMapAt h m a (snd (ValidateMapAt h m a ts))) ! a = ts ! a \<and>
     fst (ValidateSliceAt h s a ts) = ValidateSlice h s (ts ! a) \<and>
     snd (ValidateSliceAt h s a ts) ! a = ts ! a \<and>
     fst (ValidateSliceAt h s a (snd (ValidateSliceAt h s a ts))) = fst (ValidateSliceAt h s a ts) \<and>
     snd (ValidateSliceAt h s a (snd (ValidateSliceAt h s a ts))) ! a = ts ! a \<and>
     fst (ValidateStructAt h val a ts) = ValidateStruct h val (ts ! a) \<and>
     snd (ValidateStructAt h val a ts) ! a = ts ! a \<and>
     fst (ValidateStructAt h val a (snd (ValidateStructAt h val a ts)))
       = fst (ValidateStructAt h val a ts) \<and>
     snd (ValidateStructAt h val a (snd (ValidateStructAt h val a ts))) ! a = ts ! a"
proof
  assume a: "a < length ts"
  let ?m = "snd (ValidateMapAt h m a ts)"
  let ?s = "snd (ValidateSliceAt h s a ts)"
  let ?t = "snd (ValidateStructAt h val a ts)"
  note m1 = ValidateMapAt_eq [OF a, of h m]
  note s1 = ValidateSliceAt_eq [OF a, of h s]
  note t1 = ValidateStructAt_eq [OF a, of h val]
  have am: "a < length ?m" and as: "a < length ?s" and at: "a < length ?t"
    using a m1 s1 t1 by simp_all
  note m2 = ValidateMapAt_eq [OF am, of h m]
  note s2 = ValidateSliceAt_eq [OF as, of h s]
  note t2 = ValidateStructAt_eq [OF at, of h val]
  have c: "fst (createNewValidationAt ts a) ! fst (snd (createNewValidationAt ts a)) = ts ! a"
    "fst (snd (createNewValidationAt ts a)) \<noteq> a"
    using a by (simp_all add: createNewValidationAt_def copyRules_id)
  show "fst (createNewValidationAt ts a) ! fst (snd (createNewValidationAt ts a)) = ts ! a \<and>
     fst (snd (createNewValidationAt ts a)) \<noteq> a \<and>
     fst (ValidateMapAt h m a ts) = ValidateMap h m (ts ! a) \<and>
     snd (ValidateMapAt h m a ts) ! a = ts ! a \<and>
     fst (ValidateMapAt h m a (snd (ValidateMapAt h m a ts))) = fst (ValidateMapAt h m a ts) \<and>
     snd (ValidateMapAt h m a (snd (ValidateMapAt h m a ts))) ! a = ts ! a \<and>
     fst (ValidateSliceAt h s a ts) = ValidateSlice h s (ts ! a) \<and>
     snd (ValidateSliceAt h s a ts) ! a = ts ! a \<and>
     fst (ValidateSliceAt h s a (snd (ValidateSliceAt h s a ts))) = fst (ValidateSliceAt h s a ts) \<and>
     snd (ValidateSliceAt h s a (snd (ValidateSliceAt h s a ts))) ! a = ts ! a \<and>
     fst (ValidateStructAt h val a ts) = ValidateStruct h val (ts ! a) \<and>
     snd (ValidateStructAt h val a ts) ! a = ts ! a \<and>
     fst (ValidateStructAt h val a (snd (ValidateStructAt h val a ts)))
       = fst (ValidateStructAt h val a ts) \<and>
     snd (ValidateStructAt h val a (snd (ValidateStructAt h val a ts))) ! a = ts ! a"
    using a am as at c m1 s1 t1 m2 s2 t2 by simp
qed

theorem validate_twice_witness:
  "(0::nat) < length [[(''Age'', [''min:2''])]] \<and>
   ValidateStructAt exRegistry (Struct [Field ''Name'' ''required'' TOther True (Scalar [])]) 0
       [[(''Age'', [''min:2''])]]
     = (Inr [''Name'' \<mapsto> ''required Name''],
        [[(''Age'', [''min:2''])], [(''Age'', [''min:2'']), (''Name'', [''required''])]]) \<and>
   fst (ValidateStructAt exRegistry (Struct [Field ''Name'' ''required'' TOther True (Scalar [])]) 0
       [[(''Age'', [''min:2''])], [(''Age'', [''min:2'']), (''Name'', [''required''])]])
     = Inr [''Name'' \<mapsto> ''required Name''] \<and>
   fst (ValidateMapAt exRegistry [(''Age'', Scalar ''7'')] 0 [[(''Age'', [''min:2''])]])
     = Inr [''Age'' \<mapsto> ''min Age''] \<and>
   snd (ValidateMapAt exRegistry [(''Age'', Scalar ''7'')] 0 [[(''Age'', [''min:2''])]]) ! 0
     = [(''Age'', [''min:2''])] \<and>
   fst (ValidateSliceAt exRegistry [Scalar ''7''] 0 [[(''Age'', [''min:2''])]])
     = Inr Map.empty \<and>
   snd (ValidateSliceAt exRegistry [Scalar ''7''] 0 [[(''Age'', [''min:2''])]]) ! 0
     = [(''Age'', [''min:2''])]"
  using validate_twice [where a = 0 and ts = "[[(''Age'', [''min:2''])]]" and h = exRegistry
      and m = "[(''Age'', Scalar ''7'')]" and s = "[Scalar ''7'']"
      and val = "Struct [Field ''Name'' ''required'' TOther True (Scalar [])]"]
  by (simp add: eval_simps ValidateStructAt_def ValidateMapAt_def ValidateSliceAt_def
      createNewValidationAt_def TagSeparator_def AList.update.simps)

text \<open>
  The claim as stated fails where the walk reaches one path twice. A map is modelled by
  its entries in the order in which \<^verbatim>\<open>range\<close> delivers them, and Go does not fix that
  order from one loop to the next: the two lists below are the same map
  \<^verbatim>\<open>{"a": {"b": "x"}, "a.b": ""}\<close>. The path \<^verbatim>\<open>a.b\<close> is reached through the key
  \<^verbatim>\<open>a.b\<close> of the root and through the key \<^verbatim>\<open>b\<close> of the map at \<^verbatim>\<open>a\<close>, the two
  values fail different rules, and the entry written last stays.
\<close>

theorem validate_twice_counterexample:
  "rev [(''a'', MapV [(''b'', Scalar ''x'')]), (''a.b'', Scalar [])]
     = [(''a.b'', Scalar []), (''a'', MapV [(''b'', Scalar ''x'')])] \<and>
   ValidateMap exRegistry [(''a'', MapV [(''b'', Scalar ''x'')]), (''a.b'', Scalar [])]
       [(''a.b'', [''required'', ''min:2''])]
     = Inr [''a.b'' \<mapsto> ''required a.b''] \<and>
   ValidateMap exRegistry [(''a.b'', Scalar []), (''a'', MapV [(''b'', Scalar ''x'')])]
       [(''a.b'', [''required'', ''min:2''])]
     = Inr [''a.b'' \<mapsto> ''min a.b''] \<and>
   [''a.b'' \<mapsto> ''required a.b''] \<noteq> [''a.b'' \<mapsto> ''min a.b'']"
proof -
  have "[''a.b'' \<mapsto> ''required a.b''] ''a.b'' \<noteq> [''a.b'' \<mapsto> ''min a.b''] ''a.b''"
    by simp
  then have "[''a.b'' \<mapsto> ''required a.b''] \<noteq> [''a.b'' \<mapsto> ''min a.b'']"
    by metis
  then show ?thesis by (simp add: eval_simps)
qed

end
